theory Spec2Isabelle
  imports Complex_Main "HOL-Library.Sublist" "HOL-Library.Multiset"
begin

section \<open>Python values used by \<open>nlp.py\<close>\<close>

text \<open>
  The exceptions that the modelled part of class \<open>Text\<close> can raise. \<open>IOError\<close> stands
  for a file that cannot be opened (by \<open>open\<close> or by \<open>pdfplumber.open\<close>).
\<close>

datatype error =
    IOError
  | TypeError
  | AttributeError
  | KeyError
  | ZeroDivisionError
  | UnboundLocalError

subsection \<open>Ordered dictionaries\<close>

text \<open>
  A Python \<open>dict\<close> keeps its keys in insertion order, and the adapters iterate over
  that order, so a dictionary is an association list. \<open>d[k] = v\<close> replaces the value
  of a key that is present, in place, and appends a new key at the end; \<open>d.get(k)\<close>
  is \<open>map_of d k\<close>, with \<open>None\<close> for Python's \<open>None\<close>.
\<close>

fun dict_set :: "'k \<Rightarrow> 'v \<Rightarrow> ('k \<times> 'v) list \<Rightarrow> ('k \<times> 'v) list" where
  "dict_set k v [] = [(k, v)]"
| "dict_set k v ((k', v') # rest) =
     (if k' = k then (k, v) # rest else (k', v') # dict_set k v rest)"

definition keys :: "('k \<times> 'v) list \<Rightarrow> 'k list" where
  "keys d = map fst d"

subsection \<open>\<open>collections.Counter\<close>\<close>

text \<open>
  \<open>Counter(words)\<close> runs \<open>self[elem] = self.get(elem, 0) + 1\<close> over the words in
  order; a counter is the ordered dictionary that results, its keys in the order of
  their first occurrence.
\<close>

type_synonym counter = "(string \<times> nat) list"

definition count_element :: "counter \<Rightarrow> string \<Rightarrow> counter" where
  "count_element c elem =
     dict_set elem ((case map_of c elem of None \<Rightarrow> 0 | Some n \<Rightarrow> n) + 1) c"

definition Counter :: "string list \<Rightarrow> counter" where
  "Counter words = foldl count_element [] words"

text \<open>
  \<open>most_common(k)\<close> is \<open>heapq.nlargest(k, self.items(), key=itemgetter(1))\<close>: the
  first \<open>k\<close> items of the items sorted by decreasing count, items of equal count in
  dictionary order (the sort is stable), and no item when \<open>k \<le> 0\<close>.
\<close>

definition most_common :: "int \<Rightarrow> counter \<Rightarrow> (string \<times> nat) list" where
  "most_common k c =
     (if k \<le> 0 then [] else take (nat k) (sort_key (\<lambda>(word, n). - int n) c))"

text \<open>The slice \<open>xs[:k]\<close>; a negative \<open>k\<close> counts from the end.\<close>

definition slice_to :: "int \<Rightarrow> 'a list \<Rightarrow> 'a list" where
  "slice_to k xs =
     (if 0 \<le> k then take (nat k) xs else take (nat (int (length xs) + k)) xs)"

subsection \<open>Strings\<close>

text \<open>
  Text is a \<open>string\<close>, one \<open>char\<close> per character of the Python \<open>str\<close>: a
  \<open>char\<close> is the code point of the character, from 0 to 255, and \<open>of_char\<close> gives
  it. The character classes below are Python's on every code point of the type:
  \<^item> \<open>str.lower\<close> replaces a capital letter (\<open>A\<close> to \<open>Z\<close>, and the codes 192 to
    214 and 216 to 222) by the character 32 codes further, and keeps every other
    character;
  \<^item> \<open>str.isalpha\<close> accepts the letters: \<open>A\<close> to \<open>Z\<close>, \<open>a\<close> to \<open>z\<close>, the codes
    170, 181 and 186, and the codes 192 to 255 but 215 and 247;
  \<^item> \<open>str.split()\<close> and \<open>str.strip()\<close> take as white space the codes 9 to 13,
    28 to 32, 133 and 160;
  \<^item> \<open>string.punctuation\<close> is the 32 characters \<open>!"#$%&'()*+,-./:;<=>?@[\]^_`{|}~\<close>
    (codes 33 to 47, 58 to 64, 91 to 96 and 123 to 126).
\<close>

definition is_upper :: "char \<Rightarrow> bool" where
  "is_upper c =
     (let n = (of_char c :: nat)
      in (65 \<le> n \<and> n \<le> 90) \<or> (192 \<le> n \<and> n \<le> 214) \<or> (216 \<le> n \<and> n \<le> 222))"

definition is_alpha :: "char \<Rightarrow> bool" where
  "is_alpha c =
     (let n = (of_char c :: nat)
      in (65 \<le> n \<and> n \<le> 90) \<or> (97 \<le> n \<and> n \<le> 122) \<or> n = 170 \<or> n = 181 \<or> n = 186 \<or>
         (192 \<le> n \<and> n \<le> 214) \<or> (216 \<le> n \<and> n \<le> 246) \<or> (248 \<le> n \<and> n \<le> 255))"

definition is_space :: "char \<Rightarrow> bool" where
  "is_space c =
     (let n = (of_char c :: nat)
      in (9 \<le> n \<and> n \<le> 13) \<or> (28 \<le> n \<and> n \<le> 32) \<or> n = 133 \<or> n = 160)"

definition punctuation :: "char \<Rightarrow> bool" where
  "punctuation c =
     (let n = (of_char c :: nat)
      in (33 \<le> n \<and> n \<le> 47) \<or> (58 \<le> n \<and> n \<le> 64) \<or>
         (91 \<le> n \<and> n \<le> 96) \<or> (123 \<le> n \<and> n \<le> 126))"

definition lower_char :: "char \<Rightarrow> char" where
  "lower_char c = (if is_upper c then char_of (of_char c + (32::nat)) else c)"

definition lower :: "string \<Rightarrow> string" where
  "lower s = map lower_char s"

text \<open>\<open>raw.translate(str.maketrans('', '', string.punctuation))\<close> deletes the
  punctuation characters.\<close>

definition remove_punctuation :: "string \<Rightarrow> string" where
  "remove_punctuation s = filter (\<lambda>c. \<not> punctuation c) s"

text \<open>\<open>word.isalpha()\<close>: at least one character, and every character a letter.\<close>

definition isalpha :: "string \<Rightarrow> bool" where
  "isalpha word = (word \<noteq> [] \<and> (\<forall>c \<in> set word. is_alpha c))"

text \<open>
  \<open>s.split()\<close> scans the string once: white space ends the word being read, if there
  is one, and the end of the string ends the last word. \<open>split_from cur s\<close> is
  the scan with \<open>cur\<close> the word being read, reversed.
\<close>

fun split_from :: "string \<Rightarrow> string \<Rightarrow> string list" where
  "split_from cur [] = (if cur = [] then [] else [rev cur])"
| "split_from cur (c # s) =
     (if is_space c then (if cur = [] then split_from [] s else rev cur # split_from [] s)
      else split_from (c # cur) s)"

definition split :: "string \<Rightarrow> string list" where
  "split s = split_from [] s"



text \<open>\<open>s.strip()\<close> removes the white space at both ends.\<close>

definition strip :: "string \<Rightarrow> string" where
  "strip s = rev (dropWhile is_space (rev (dropWhile is_space s)))"

text \<open>The lines of a text, as iterating over the open file gives them: each line
  ends after its newline character, and the last one at the end of the text.\<close>

fun lines_from :: "string \<Rightarrow> string \<Rightarrow> string list" where
  "lines_from cur [] = (if cur = [] then [] else [rev cur])"
| "lines_from cur (c # s) =
     (if c = CHR 0x0A then rev (c # cur) # lines_from [] s else lines_from (c # cur) s)"

section \<open>The files\<close>

text \<open>
  What the program reads: \<open>text_files\<close> gives the text that \<open>open(path, 'r')\<close>
  reads from a path, and \<open>pdf_files\<close> the pages that \<open>pdfplumber.open\<close> finds,
  each with the result of its \<open>extract_text()\<close> (\<open>None\<close> for a page without text).
  A path without an entry cannot be opened.
\<close>

record files =
  text_files :: "string \<rightharpoonup> string"
  pdf_files :: "string \<rightharpoonup> string option list"

section \<open>Stop words and parsers\<close>

text \<open>
  The stop-word argument is not typed in the source: \<open>load_text\<close> defaults it to the
  list that \<open>load_stop_words\<close> returns, \<open>simple_text_parser\<close> tests
  \<open>word not in stop_words\<close> on it, and \<open>pdf_parser\<close> takes it as the path of the
  stop-word file (as the driver script passes it). \<open>StopList\<close> is a list or set of words,
  \<open>StopStr\<close> a single string.
\<close>

datatype stop_arg = StopList "string list" | StopStr string

text \<open>The value of a statistic: a \<open>Counter\<close>, an \<open>int\<close> or a \<open>str\<close>.\<close>

datatype stat = CounterV counter | IntV int | StrV string

type_synonym results = "(string \<times> stat) list"

definition load_stop_words :: "files \<Rightarrow> string \<Rightarrow> error + string list" where
  "load_stop_words fs stopfile =
     (case text_files fs stopfile of
        None \<Rightarrow> Inl IOError
      | Some content \<Rightarrow>
          Inr (map strip (filter (\<lambda>line. strip line \<noteq> []) (lines_from [] content))))"

text \<open>\<open>word not in stop_words\<close>: membership in a list or set, and the substring test
  in a string.\<close>

fun not_in :: "string \<Rightarrow> stop_arg \<Rightarrow> bool" where
  "not_in word (StopList ws) = (word \<notin> set ws)"
| "not_in word (StopStr s) = (\<not> sublist word s)"

text \<open>The comprehension \<open>[word for word in raw.split() if word.isalpha() and word not
  in stop_words]\<close> of both parsers.\<close>

definition filter_words :: "string \<Rightarrow> stop_arg \<Rightarrow> string list" where
  "filter_words raw stop_words =
     filter (\<lambda>word. isalpha word \<and> not_in word stop_words) (split raw)"

text \<open>The words that a parser counts, from the text it has read: the text in lower
  case, without its punctuation, split and filtered.\<close>

definition counted_words :: "string \<Rightarrow> stop_arg \<Rightarrow> string list" where
  "counted_words text stop_words = filter_words (remove_punctuation (lower text)) stop_words"

definition simple_text_parser :: "files \<Rightarrow> string \<Rightarrow> stop_arg \<Rightarrow> error + results" where
  "simple_text_parser fs filename stop_words =
     (case text_files fs filename of
        None \<Rightarrow> Inl IOError
      | Some content \<Rightarrow>
          (let raw = lower content;
               raw = remove_punctuation raw;
               words = filter_words raw stop_words;
               wc = Counter words
           in Inr [(''wordcount'', CounterV wc), (''num_words'', IntV (int (length words)))]))"

text \<open>The text of the pages: \<open>raw += text + "\n"\<close> for every page whose text is
  neither \<open>None\<close> nor empty.\<close>

fun pages_text :: "string option list \<Rightarrow> string" where
  "pages_text [] = []"
| "pages_text (None # pages) = pages_text pages"
| "pages_text (Some text # pages) =
     (if text = [] then pages_text pages else text @ [CHR 0x0A] @ pages_text pages)"

text \<open>\<open>pdf_parser\<close> opens its second argument as the stop-word file, which fails
  with \<open>TypeError\<close> on a list.\<close>

definition pdf_parser :: "files \<Rightarrow> string \<Rightarrow> stop_arg \<Rightarrow> error + results" where
  "pdf_parser fs filename stopfile =
     (case stopfile of
        StopList ws \<Rightarrow> Inl TypeError
      | StopStr path \<Rightarrow>
          (case load_stop_words fs path of
             Inl e \<Rightarrow> Inl e
           | Inr stop_list \<Rightarrow>
               (case pdf_files fs filename of
                  None \<Rightarrow> Inl IOError
                | Some pages \<Rightarrow>
                    (let stop_words = StopList stop_list;
                         num_pages = length pages;
                         raw = pages_text pages;
                         raw = lower raw;
                         raw = remove_punctuation raw;
                         words = filter_words raw stop_words;
                         wc = Counter words;
                         num_words = length words
                     in Inr [(''wordcount'', CounterV wc), (''num_words'', IntV (int num_words)),
                             (''num_pages'', IntV (int num_pages)), (''raw_text'', StrV raw)]))))"

section \<open>The corpus\<close>

text \<open>
  \<open>self.data\<close> is a \<open>defaultdict(dict)\<close>: statistic name, then document label.
  Reading \<open>self.data[k]\<close> for a name that is not there stores an empty dictionary
  under it and returns that, so every access returns the corpus too.
\<close>

type_synonym corpus = "(string \<times> (string \<times> stat) list) list"

definition data_get :: "corpus \<Rightarrow> string \<Rightarrow> corpus \<times> (string \<times> stat) list" where
  "data_get data k =
     (case map_of data k of None \<Rightarrow> (dict_set k [] data, []) | Some d \<Rightarrow> (data, d))"

text \<open>\<open>self.data[k][label] = v\<close>\<close>

definition data_store :: "corpus \<Rightarrow> string \<Rightarrow> string \<Rightarrow> stat \<Rightarrow> corpus" where
  "data_store data k label v =
     (case data_get data k of (data', d) \<Rightarrow> dict_set k (dict_set label v d) data')"

text \<open>The entry of a label under a statistic, \<open>None\<close> when there is none (a read
  that leaves the corpus as it is).\<close>

definition stat_of :: "corpus \<Rightarrow> string \<Rightarrow> string \<Rightarrow> stat option" where
  "stat_of data k label = (case map_of data k of None \<Rightarrow> None | Some d \<Rightarrow> map_of d label)"

subsection \<open>\<open>load_text\<close>\<close>

text \<open>
  A parser is any callable of a file name and the stop words. Without one,
  \<open>load_text\<close> calls \<open>self.simple_text_parser(filename)\<close>, one argument short of
  the two that \<open>simple_text_parser\<close> requires, and the call raises \<open>TypeError\<close>.
\<close>

type_synonym parser = "files \<Rightarrow> string \<Rightarrow> stop_arg \<Rightarrow> error + results"

definition default_stop_words :: "files \<Rightarrow> stop_arg option \<Rightarrow> error + stop_arg" where
  "default_stop_words fs stop_words =
     (case stop_words of
        None \<Rightarrow>
          (case load_stop_words fs ''stop_words.txt'' of
             Inl e \<Rightarrow> Inl e
           | Inr ws \<Rightarrow> Inr (StopList ws))
      | Some sw \<Rightarrow> Inr sw)"

definition store_results :: "string \<Rightarrow> results \<Rightarrow> corpus \<Rightarrow> corpus" where
  "store_results label results data =
     foldl (\<lambda>data (k, v). data_store data k label v) data results"

definition load_text ::
  "files \<Rightarrow> corpus \<Rightarrow> string \<Rightarrow> string option \<Rightarrow> stop_arg option \<Rightarrow> parser option
     \<Rightarrow> error + corpus" where
  "load_text fs data filename label stop_words parser =
     (case default_stop_words fs stop_words of
        Inl e \<Rightarrow> Inl e
      | Inr stop_words \<Rightarrow>
          (case (case parser of
                   None \<Rightarrow> Inl TypeError
                 | Some p \<Rightarrow> p fs filename stop_words) of
             Inl e \<Rightarrow> Inl e
           | Inr results \<Rightarrow>
               (let label = (case label of None \<Rightarrow> filename | Some l \<Rightarrow> l)
                in Inr (store_results label results data))))"

section \<open>Top-k selection of \<open>wordcount_sankey\<close>\<close>

text \<open>
  The first part of \<open>wordcount_sankey\<close>, which chooses the words of every document:
  the given \<open>word_list\<close>, or the words of \<open>wordcount.most_common(k)\<close>. A statistic
  stored under \<open>wordcount\<close> that is not a counter has no \<open>most_common\<close>. The edges
  and the figure that the rest of the function makes from the choice are not modelled.
\<close>

fun top_words_loop ::
  "(string \<times> stat) list \<Rightarrow> int \<Rightarrow> string list \<Rightarrow> error + (string \<times> string list) list" where
  "top_words_loop wordcounts k [] = Inr []"
| "top_words_loop wordcounts k (label # files) =
     (case map_of wordcounts label of
        None \<Rightarrow> Inl KeyError
      | Some (CounterV wordcount) \<Rightarrow>
          (let top_words = map fst (most_common k wordcount)
           in case top_words_loop wordcounts k files of
                Inl e \<Rightarrow> Inl e
              | Inr top_words_per_file \<Rightarrow> Inr ((label, top_words) # top_words_per_file))
      | Some _ \<Rightarrow> Inl AttributeError)"

definition sankey_top_words ::
  "corpus \<Rightarrow> string list option \<Rightarrow> int \<Rightarrow> corpus \<times> (error + (string \<times> string list) list)" where
  "sankey_top_words data word_list k =
     (case data_get data ''wordcount'' of
        (data', wordcounts) \<Rightarrow>
          (let files = keys wordcounts
           in case word_list of
                None \<Rightarrow> (data', top_words_loop wordcounts k files)
              | Some wl \<Rightarrow> (data', Inr (map (\<lambda>label. (label, wl)) files))))"

section \<open>Features\<close>

text \<open>The two readability functions of \<open>textstat\<close> are parameters of the model.\<close>

record textstat =
  flesch_kincaid_grade :: "string \<Rightarrow> real"
  polysyllabcount :: "string \<Rightarrow> int"

record features =
  Word_Count :: "stat option"
  Grade_Level :: real
  Polysyllable_Count :: int

text \<open>No statement of \<open>get_features\<close> raises: \<open>dict.get\<close> returns \<open>None\<close> for a
  label that is not there.\<close>

definition get_features :: "textstat \<Rightarrow> corpus \<Rightarrow> string \<Rightarrow> corpus \<times> (error + features)" where
  "get_features ts data text =
     (case data_get data ''wordcount'' of
        (data', wordcounts) \<Rightarrow>
          (let word_count = map_of wordcounts text;
               grade_level = flesch_kincaid_grade ts text;
               polysyllable_count = polysyllabcount ts text
           in (data', Inr \<lparr>Word_Count = word_count, Grade_Level = grade_level,
                           Polysyllable_Count = polysyllable_count\<rparr>)))"

subsection \<open>\<open>complexity_heatmap\<close>\<close>

fun join :: "string \<Rightarrow> string list \<Rightarrow> string" where
  "join sep [] = []"
| "join sep [x] = x"
| "join sep (x # y # ys) = x @ sep @ join sep (y # ys)"

text \<open>
  The rows \<open>[num_words, polysyllable_count, grade]\<close> of \<open>data\<close>, and the
  normalisation of lines 283 to 290, which sits inside the loop and so runs on the
  rows gathered so far after every document. \<open>/\<close> on a zero maximum raises
  \<open>ZeroDivisionError\<close>; the three maxima are the same for every row, so the first row
  raises it when any of them is zero.
\<close>

type_synonym row = "int \<times> int \<times> real"

definition max_word_count :: "row list \<Rightarrow> int" where
  "max_word_count data = Max (set (map (\<lambda>(num_words, polysyllable_count, grade). num_words) data))"

definition max_polysyllable_count :: "row list \<Rightarrow> int" where
  "max_polysyllable_count data =
     Max (set (map (\<lambda>(num_words, polysyllable_count, grade). polysyllable_count) data))"

definition max_grade :: "row list \<Rightarrow> real" where
  "max_grade data = Max (set (map (\<lambda>(num_words, polysyllable_count, grade). grade) data))"

definition normalize_rows :: "row list \<Rightarrow> error + (real \<times> real \<times> real) list" where
  "normalize_rows data =
     (if max_word_count data = 0 \<or> max_polysyllable_count data = 0 \<or> max_grade data = 0
      then Inl ZeroDivisionError
      else Inr (map (\<lambda>(num_words, polysyllable_count, grade).
                       (real_of_int num_words / real_of_int (max_word_count data),
                        real_of_int polysyllable_count / real_of_int (max_polysyllable_count data),
                        grade / max_grade data)) data))"

text \<open>
  The state of the loop: the corpus, \<open>data\<close>, \<open>labels\<close>, and \<open>normalized_data\<close>,
  which is unbound until the first pass of the loop has assigned it.
\<close>

record heatmap_state =
  corpus_of :: corpus
  rows :: "row list"
  labels :: "string list"
  normalized_data :: "(real \<times> real \<times> real) list option"

text \<open>
  One pass of the loop. A statistic under \<open>wordcount\<close> that is not a counter has no
  \<open>keys\<close>. A \<open>num_words\<close> that is not an \<open>int\<close> (\<open>None\<close> when the label has no
  entry) raises \<open>TypeError\<close> in the pass that appends it, in \<open>max\<close> or in the
  first division.
\<close>

definition heatmap_step :: "textstat \<Rightarrow> string \<Rightarrow> heatmap_state \<Rightarrow> heatmap_state \<times> error option" where
  "heatmap_step ts label st =
     (case data_get (corpus_of st) ''wordcount'' of
        (data1, wordcounts) \<Rightarrow>
          (case map_of wordcounts label of
             None \<Rightarrow> (st\<lparr>corpus_of := data1\<rparr>, Some KeyError)
           | Some (CounterV wordcount) \<Rightarrow>
               (let text = join '' '' (keys wordcount)
                in case data_get data1 ''num_words'' of
                     (data2, nums) \<Rightarrow>
                       (let num_words = map_of nums label;
                            grade = flesch_kincaid_grade ts text;
                            polysyllable_count = polysyllabcount ts text
                        in case num_words of
                             Some (IntV n) \<Rightarrow>
                               (let data = rows st @ [(n, polysyllable_count, grade)];
                                    st' = st\<lparr>corpus_of := data2, rows := data,
                                             labels := labels st @ [label]\<rparr>
                                in case normalize_rows data of
                                     Inl e \<Rightarrow> (st', Some e)
                                   | Inr normalized \<Rightarrow>
                                       (st'\<lparr>normalized_data := Some normalized\<rparr>, None))
                           | _ \<Rightarrow> (st\<lparr>corpus_of := data2\<rparr>, Some TypeError)))
           | Some _ \<Rightarrow> (st\<lparr>corpus_of := data1\<rparr>, Some AttributeError)))"

fun heatmap_loop :: "textstat \<Rightarrow> string list \<Rightarrow> heatmap_state \<Rightarrow> heatmap_state \<times> error option" where
  "heatmap_loop ts [] st = (st, None)"
| "heatmap_loop ts (label # batch) st =
     (case heatmap_step ts label st of
        (st', Some e) \<Rightarrow> (st', Some e)
      | (st', None) \<Rightarrow> heatmap_loop ts batch st')"

text \<open>
  \<open>complexity_heatmap\<close> up to the matrix it hands to the renderer: the labels and
  the normalised rows. When the loop has not run, \<open>np.array(normalized_data)\<close> reads
  an unbound variable.
\<close>

definition complexity_heatmap ::
  "textstat \<Rightarrow> corpus \<Rightarrow> int \<Rightarrow> corpus \<times> (error + string list \<times> (real \<times> real \<times> real) list)" where
  "complexity_heatmap ts data k =
     (case data_get data ''wordcount'' of
        (data0, wordcounts) \<Rightarrow>
          (case heatmap_loop ts (slice_to k (keys wordcounts))
                  \<lparr>corpus_of = data0, rows = [], labels = [], normalized_data = None\<rparr> of
             (st, Some e) \<Rightarrow> (corpus_of st, Inl e)
           | (st, None) \<Rightarrow>
               (case normalized_data st of
                  None \<Rightarrow> (corpus_of st, Inl UnboundLocalError)
                | Some normalized \<Rightarrow> (corpus_of st, Inr (labels st, normalized)))))"

text \<open>
  The row that a pass of the loop appends for a document whose \<open>wordcount\<close> is a
  counter and whose \<open>num_words\<close> is an \<open>int\<close>, read from the corpus.
\<close>

definition doc_row :: "textstat \<Rightarrow> corpus \<Rightarrow> string \<Rightarrow> row option" where
  "doc_row ts data label =
     (case (stat_of data ''wordcount'' label, stat_of data ''num_words'' label) of
        (Some (CounterV wordcount), Some (IntV num_words)) \<Rightarrow>
          Some (num_words, polysyllabcount ts (join '' '' (keys wordcount)),
                flesch_kincaid_grade ts (join '' '' (keys wordcount)))
      | _ \<Rightarrow> None)"

section \<open>Example inputs\<close>

text \<open>
  A small file system, and a stand-in for \<open>textstat\<close> (the length of the text as its
  grade, the number of words of eight letters or more as its polysyllable count), for
  the theorems below that run the program on concrete input.
\<close>

definition example_files :: files where
  "example_files =
     \<lparr>text_files = [''hello.txt'' \<mapsto> ''Hello, World! 123'',
                    ''empty.txt'' \<mapsto> [],
                    ''long.txt'' \<mapsto> ''Screenplay complexity'',
                    ''features.txt'' \<mapsto> ''Normalized features text'',
                    ''stop_words.txt'' \<mapsto> ''the\<newline>a\<newline>''],
      pdf_files = [''cat.pdf'' \<mapsto> [Some ''The cat sat.'', None, Some ''A cat ran!'']]\<rparr>"

definition example_textstat :: textstat where
  "example_textstat =
     \<lparr>flesch_kincaid_grade = (\<lambda>text. real (length text)),
      polysyllabcount = (\<lambda>text. int (length (filter (\<lambda>word. 8 \<le> length word) (split text))))\<rparr>"

text \<open>The corpus after \<open>load_text('cat.pdf', label='Cat', stop_words='stop_words.txt',
  parser=pdf_parser)\<close> on these files.\<close>

definition example_corpus :: corpus where
  "example_corpus =
     [(''wordcount'', [(''Cat'', CounterV [(''cat'', 2), (''sat'', 1), (''ran'', 1)])]),
      (''num_words'', [(''Cat'', IntV 4)]),
      (''num_pages'', [(''Cat'', IntV 3)]),
      (''raw_text'', [(''Cat'', StrV ''the cat sat\<newline>a cat ran\<newline>'')])]"

text \<open>The corpus after loading \<open>long.txt\<close> as \<open>Long\<close> and \<open>features.txt\<close> as
  \<open>Features\<close> with \<open>simple_text_parser\<close> and no stop words.\<close>

definition two_documents :: corpus where
  "two_documents =
     [(''wordcount'',
       [(''Long'', CounterV [(''screenplay'', 1), (''complexity'', 1)]),
        (''Features'', CounterV [(''normalized'', 1), (''features'', 1), (''text'', 1)])]),
      (''num_words'', [(''Long'', IntV 2), (''Features'', IntV 3)])]"

section \<open>Dictionaries and counters\<close>

lemma map_of_dict_set: "map_of (dict_set k v d) = (map_of d)(k \<mapsto> v)"
  by (induction d) (auto simp: fun_eq_iff)

lemma keys_dict_set:
  "keys (dict_set k v d) = (if k \<in> set (keys d) then keys d else keys d @ [k])"
  by (induction d) (force simp: keys_def)+

lemma distinct_keys_dict_set: "distinct (keys d) \<Longrightarrow> distinct (keys (dict_set k v d))"
  by (simp add: keys_dict_set)

lemma sum_dict_set_new:
  "map_of d k = None \<Longrightarrow> sum_list (map snd (dict_set k v d)) = sum_list (map snd d) + (v::nat)"
  by (induction d) (auto split: if_splits)

lemma sum_dict_set_old:
  "map_of d k = Some n \<Longrightarrow>
     sum_list (map snd (dict_set k v d)) + n = sum_list (map snd d) + (v::nat)"
  by (induction d) (auto split: if_splits)

text \<open>Counting one more element adds one to the total.\<close>

lemma sum_count_element:
  "sum_list (map snd (count_element c w)) = sum_list (map snd c) + 1"
proof (cases "map_of c w")
  case None
  then show ?thesis by (simp add: count_element_def sum_dict_set_new)
next
  case (Some n)
  from sum_dict_set_old [OF Some, of "n + 1"] show ?thesis
    by (simp add: count_element_def Some)
qed

lemma sum_foldl_count_element:
  "sum_list (map snd (foldl count_element c ws)) = sum_list (map snd c) + length ws"
  by (induction ws arbitrary: c) (simp_all add: sum_count_element)

lemma sum_Counter: "sum_list (map snd (Counter ws)) = length ws"
  by (simp add: Counter_def sum_foldl_count_element)

lemma map_of_count_element:
  "map_of (count_element c w) =
     (map_of c)(w \<mapsto> (case map_of c w of None \<Rightarrow> 0 | Some n \<Rightarrow> n) + 1)"
  by (simp add: count_element_def map_of_dict_set)

lemma map_of_foldl_count_element:
  "map_of (foldl count_element c ws) x =
     (if x \<in> set ws \<or> map_of c x \<noteq> None
      then Some ((case map_of c x of None \<Rightarrow> 0 | Some n \<Rightarrow> n) + count_list ws x)
      else None)"
  by (induction ws arbitrary: c) (auto simp: map_of_count_element split: option.splits)

text \<open>A counter maps every word of the list to its number of occurrences.\<close>

lemma map_of_Counter:
  "map_of (Counter ws) x = (if x \<in> set ws then Some (count_list ws x) else None)"
  by (simp add: Counter_def map_of_foldl_count_element)

lemma distinct_keys_foldl_count_element:
  "distinct (keys c) \<Longrightarrow> distinct (keys (foldl count_element c ws))"
  by (induction ws arbitrary: c) (simp_all add: count_element_def distinct_keys_dict_set)

lemma distinct_keys_Counter: "distinct (keys (Counter ws))"
  using distinct_keys_foldl_count_element [of "[]" ws] by (simp add: Counter_def keys_def)

lemma set_keys_Counter: "set (keys (Counter ws)) = set ws"
proof -
  have "set (keys (Counter ws)) = dom (map_of (Counter ws))"
    by (simp add: keys_def dom_map_of_conv_image_fst)
  also have "\<dots> = set ws"
    by (auto simp: map_of_Counter dom_def)
  finally show ?thesis .
qed

lemma Counter_item:
  "(w, n) \<in> set (Counter ws) \<longleftrightarrow> w \<in> set ws \<and> n = count_list ws w"
proof -
  have "distinct (map fst (Counter ws))"
    using distinct_keys_Counter [of ws] by (simp add: keys_def)
  then have "(w, n) \<in> set (Counter ws) \<longleftrightarrow> map_of (Counter ws) w = Some n"
    by simp
  then show ?thesis by (auto simp: map_of_Counter)
qed

lemma Counter_item_positive: "(w, n) \<in> set (Counter ws) \<Longrightarrow> 1 \<le> n"
  using count_list_0_iff [of ws w] by (auto simp: Counter_item)

section \<open>What the parsers return\<close>

lemma simple_text_parser_Inr:
  "simple_text_parser fs filename stop_words = Inr results \<longleftrightarrow>
     (\<exists>content. text_files fs filename = Some content \<and>
        results = [(''wordcount'', CounterV (Counter (counted_words content stop_words))),
                   (''num_words'', IntV (int (length (counted_words content stop_words))))])"
  by (auto simp: simple_text_parser_def counted_words_def Let_def split: option.splits)

lemma pdf_parser_Inr:
  "pdf_parser fs filename stopfile = Inr results \<longleftrightarrow>
     (\<exists>path stop_list pages.
        stopfile = StopStr path \<and> load_stop_words fs path = Inr stop_list \<and>
        pdf_files fs filename = Some pages \<and>
        results =
          [(''wordcount'', CounterV (Counter (counted_words (pages_text pages) (StopList stop_list)))),
           (''num_words'', IntV (int (length (counted_words (pages_text pages) (StopList stop_list))))),
           (''num_pages'', IntV (int (length pages))),
           (''raw_text'', StrV (remove_punctuation (lower (pages_text pages))))])"
  by (auto simp: pdf_parser_def counted_words_def Let_def
      split: option.splits stop_arg.splits sum.splits)

section \<open>Strings\<close>



















section \<open>Top-k selection\<close>

lemma most_common_all:
  assumes "int (length c) \<le> k"
  shows "most_common k c = sort_key (\<lambda>(word, n). - int n) c"
proof (cases "k \<le> 0")
  case True
  with assms have "int (length c) \<le> 0" by linarith
  then have "c = []" by simp
  with True show ?thesis by (simp add: most_common_def)
next
  case False
  with assms have "length c \<le> nat k" by simp
  with False show ?thesis by (simp add: most_common_def)
qed

lemma mset_most_common_all: "int (length c) \<le> k \<Longrightarrow> mset (most_common k c) = mset c"
  by (simp add: most_common_all)

lemma slice_to_all: "int (length xs) \<le> k \<Longrightarrow> slice_to k xs = xs"
  by (simp add: slice_to_def)

lemma top_words_loop_counters:
  assumes "\<forall>label \<in> set files. \<exists>c. map_of wordcounts label = Some (CounterV c)"
  shows "\<exists>tw. top_words_loop wordcounts k files = Inr tw \<and> map fst tw = files \<and>
           (\<forall>label \<in> set files. \<forall>c. map_of wordcounts label = Some (CounterV c) \<longrightarrow>
              map_of tw label = Some (map fst (most_common k c)))"
  using assms
proof (induction files)
  case Nil
  then show ?case by simp
next
  case (Cons label files)
  from Cons.prems obtain c where c: "map_of wordcounts label = Some (CounterV c)"
    by auto
  from Cons.prems have "\<forall>l \<in> set files. \<exists>c. map_of wordcounts l = Some (CounterV c)"
    by simp
  from Cons.IH [OF this] obtain tw where
    tw: "top_words_loop wordcounts k files = Inr tw" "map fst tw = files"
      "\<forall>l \<in> set files. \<forall>c. map_of wordcounts l = Some (CounterV c) \<longrightarrow>
         map_of tw l = Some (map fst (most_common k c))"
    by blast
  let ?tw = "(label, map fst (most_common k c)) # tw"
  have run: "top_words_loop wordcounts k (label # files) = Inr ?tw"
    by (simp add: c tw(1))
  have labels: "map fst ?tw = label # files"
    by (simp add: tw(2))
  have chosen: "\<forall>l \<in> set (label # files). \<forall>c'. map_of wordcounts l = Some (CounterV c') \<longrightarrow>
      map_of ?tw l = Some (map fst (most_common k c'))"
    using c tw(3) by auto
  show ?case
    by (rule exI [of _ ?tw]) (intro conjI run labels chosen)
qed

section \<open>Reading and writing the corpus\<close>

lemma stat_of_data_get: "stat_of (fst (data_get data k)) k' l = stat_of data k' l"
  by (simp add: stat_of_def data_get_def map_of_dict_set split: option.splits)

lemma map_of_data_get: "map_of (snd (data_get data k)) l = stat_of data k l"
  by (simp add: stat_of_def data_get_def split: option.splits)

lemma stat_of_data_store:
  "stat_of (data_store data k label v) k' l =
     (if k' = k \<and> l = label then Some v else stat_of data k' l)"
  by (simp add: stat_of_def data_store_def data_get_def map_of_dict_set split: option.splits)

lemma stat_of_store_results_other:
  "l \<noteq> label \<Longrightarrow> stat_of (store_results label results data) k l = stat_of data k l"
  unfolding store_results_def
  by (induction results arbitrary: data) (simp_all add: stat_of_data_store split_beta)

lemma stat_of_store_results_absent:
  "k \<notin> set (keys results) \<Longrightarrow> stat_of (store_results label results data) k l = stat_of data k l"
  unfolding store_results_def
  by (induction results arbitrary: data) (auto simp: stat_of_data_store split_beta keys_def)

lemma stat_of_store_results_label:
  "distinct (keys results) \<Longrightarrow> (k, v) \<in> set results \<Longrightarrow>
     stat_of (store_results label results data) k label = Some v"
proof (induction results arbitrary: data)
  case Nil
  then show ?case by simp
next
  case (Cons r results)
  obtain k' v' where r: "r = (k', v')" by (cases r)
  have step: "store_results label (r # results) data =
      store_results label results (data_store data k' label v')"
    by (simp add: store_results_def r)
  show ?case
  proof (cases "(k, v) \<in> set results")
    case True
    with Cons.prems show ?thesis
      by (simp add: step Cons.IH keys_def)
  next
    case False
    with Cons.prems r have eq: "k' = k" "v' = v" and absent: "k \<notin> set (keys results)"
      by (auto simp: keys_def)
    show ?thesis
      by (simp add: step stat_of_store_results_absent [OF absent] stat_of_data_store eq)
  qed
qed

lemma load_text_without_parser:
  "\<exists>e. load_text fs data filename label stop_words None = Inl e"
  by (simp add: load_text_def split: sum.splits)

lemma load_text_with_parser:
  "default_stop_words fs stop_words = Inr sw \<Longrightarrow> parser fs filename sw = Inr results \<Longrightarrow>
     load_text fs data filename label stop_words (Some parser) =
       Inr (store_results (case label of None \<Rightarrow> filename | Some l \<Rightarrow> l) results data)"
  by (simp add: load_text_def)

section \<open>The loop of \<open>complexity_heatmap\<close>\<close>

lemma normalize_rows_Inl: "normalize_rows data = Inl e \<Longrightarrow> e = ZeroDivisionError"
  by (simp add: normalize_rows_def split: if_splits)

text \<open>A pass of the loop on a document with a row appends the row and normalises.\<close>

lemma heatmap_step_row:
  assumes "\<forall>k l. stat_of (corpus_of st) k l = stat_of data k l"
    and "doc_row ts data label = Some r"
  shows "\<exists>st'. (\<forall>k l. stat_of (corpus_of st') k l = stat_of data k l) \<and>
           rows st' = rows st @ [r] \<and> labels st' = labels st @ [label] \<and>
           heatmap_step ts label st =
             (case normalize_rows (rows st @ [r]) of
                Inl e \<Rightarrow> (st', Some e)
              | Inr normalized \<Rightarrow> (st'\<lparr>normalized_data := Some normalized\<rparr>, None))"
proof -
  from assms(2) obtain c n where
    c: "stat_of data ''wordcount'' label = Some (CounterV c)" and
    n: "stat_of data ''num_words'' label = Some (IntV n)" and
    r: "r = (n, polysyllabcount ts (join '' '' (keys c)), flesch_kincaid_grade ts (join '' '' (keys c)))"
    by (auto simp: doc_row_def split: option.splits stat.splits)
  let ?data1 = "fst (data_get (corpus_of st) ''wordcount'')"
  let ?data2 = "fst (data_get ?data1 ''num_words'')"
  let ?st' = "st\<lparr>corpus_of := ?data2, rows := rows st @ [r], labels := labels st @ [label]\<rparr>"
  have wc: "map_of (snd (data_get (corpus_of st) ''wordcount'')) label = Some (CounterV c)"
    using assms(1) c by (simp add: map_of_data_get)
  have nw: "map_of (snd (data_get ?data1 ''num_words'')) label = Some (IntV n)"
    using assms(1) n by (simp add: map_of_data_get stat_of_data_get)
  have inv: "\<forall>k l. stat_of (corpus_of ?st') k l = stat_of data k l"
    using assms(1) by (simp add: stat_of_data_get)
  have step: "heatmap_step ts label st =
      (case normalize_rows (rows st @ [r]) of
         Inl e \<Rightarrow> (?st', Some e)
       | Inr normalized \<Rightarrow> (?st'\<lparr>normalized_data := Some normalized\<rparr>, None))"
    unfolding r by (simp add: heatmap_step_def split_beta Let_def wc nw)
  have "rows ?st' = rows st @ [r]" and "labels ?st' = labels st @ [label]"
    by simp_all
  with inv step show ?thesis by blast
qed

lemma heatmap_loop_rows:
  assumes "\<forall>k l. stat_of (corpus_of st) k l = stat_of data k l"
    and "map (doc_row ts data) batch = map Some rs"
  shows "(snd (heatmap_loop ts batch st) = None \<or>
          snd (heatmap_loop ts batch st) = Some ZeroDivisionError) \<and>
         (snd (heatmap_loop ts batch st) = None \<longrightarrow>
            labels (fst (heatmap_loop ts batch st)) = labels st @ batch \<and>
            (batch \<noteq> [] \<longrightarrow>
               (\<exists>normalized. normalize_rows (rows st @ rs) = Inr normalized \<and>
                  normalized_data (fst (heatmap_loop ts batch st)) = Some normalized)))"
  using assms
proof (induction batch arbitrary: st rs)
  case Nil
  then show ?case by simp
next
  case (Cons label batch)
  from Cons.prems(2) obtain r rs' where rs: "rs = r # rs'" and
    r: "doc_row ts data label = Some r" and rest: "map (doc_row ts data) batch = map Some rs'"
    by (cases rs) auto
  from heatmap_step_row [OF Cons.prems(1) r] obtain st' where
    inv: "\<forall>k l. stat_of (corpus_of st') k l = stat_of data k l" and
    rows': "rows st' = rows st @ [r]" and labels': "labels st' = labels st @ [label]" and
    step: "heatmap_step ts label st =
      (case normalize_rows (rows st @ [r]) of
         Inl e \<Rightarrow> (st', Some e)
       | Inr normalized \<Rightarrow> (st'\<lparr>normalized_data := Some normalized\<rparr>, None))"
    by blast
  show ?case
  proof (cases "normalize_rows (rows st @ [r])")
    case (Inl e)
    then have "e = ZeroDivisionError" by (rule normalize_rows_Inl)
    with Inl step show ?thesis by simp
  next
    case (Inr normalized)
    let ?st'' = "st'\<lparr>normalized_data := Some normalized\<rparr>"
    have loop: "heatmap_loop ts (label # batch) st = heatmap_loop ts batch ?st''"
      by (simp add: step Inr)
    have inv'': "\<forall>k l. stat_of (corpus_of ?st'') k l = stat_of data k l"
      using inv by simp
    note IH = Cons.IH [OF inv'' rest]
    show ?thesis
    proof (cases "batch = []")
      case True
      with rest have "rs' = []" by simp
      with True Inr loop rs labels' show ?thesis by simp
    next
      case False
      with IH loop rs rows' labels' show ?thesis by simp
    qed
  qed
qed

text \<open>What \<open>complexity_heatmap\<close> returns for a batch of documents with rows.\<close>

lemma complexity_heatmap_rows:
  assumes "slice_to k (keys (snd (data_get data ''wordcount''))) = batch"
    and "map (doc_row ts data) batch = map Some rs"
  shows "snd (complexity_heatmap ts data k) = Inl ZeroDivisionError \<or>
         (batch = [] \<and> snd (complexity_heatmap ts data k) = Inl UnboundLocalError) \<or>
         (batch \<noteq> [] \<and> (\<exists>normalized. normalize_rows rs = Inr normalized \<and>
            snd (complexity_heatmap ts data k) = Inr (batch, normalized)))"
proof -
  let ?st = "\<lparr>corpus_of = fst (data_get data ''wordcount''), rows = [], labels = [],
    normalized_data = None\<rparr>"
  let ?end = "heatmap_loop ts batch ?st"
  have inv: "\<forall>k l. stat_of (corpus_of ?st) k l = stat_of data k l"
    by (simp add: stat_of_data_get)
  note loop = heatmap_loop_rows [OF inv assms(2)]
  have run: "snd (complexity_heatmap ts data k) =
      (case snd ?end of
         Some e \<Rightarrow> Inl e
       | None \<Rightarrow> (case normalized_data (fst ?end) of
                    None \<Rightarrow> Inl UnboundLocalError
                  | Some normalized \<Rightarrow> Inr (labels (fst ?end), normalized)))"
    by (simp add: complexity_heatmap_def split_beta assms(1) split: option.splits)
  show ?thesis
  proof (cases "snd ?end")
    case (Some e)
    with loop have "e = ZeroDivisionError" by simp
    with Some run show ?thesis by simp
  next
    case None
    show ?thesis
    proof (cases "batch = []")
      case True
      then show ?thesis by (simp add: run)
    next
      case False
      with loop None obtain normalized where
        "normalize_rows rs = Inr normalized" "normalized_data (fst ?end) = Some normalized"
        "labels (fst ?end) = batch"
        by auto
      with None False run show ?thesis by simp
    qed
  qed
qed

text \<open>Rows with positive features have positive maxima, and are normalised.\<close>

lemma normalize_rows_positive:
  assumes "rs \<noteq> []" and "\<forall>(n, p, g) \<in> set rs. 0 < n \<and> 0 < p \<and> 0 < g"
  shows "\<exists>normalized. normalize_rows rs = Inr normalized \<and> length normalized = length rs"
proof -
  let ?W = "set (map (\<lambda>(num_words, polysyllable_count, grade). num_words) rs)"
  let ?P = "set (map (\<lambda>(num_words, polysyllable_count, grade). polysyllable_count) rs)"
  let ?G = "set (map (\<lambda>(num_words, polysyllable_count, grade). grade) rs)"
  from assms(1) have "Max ?W \<in> ?W" and "Max ?P \<in> ?P" and "Max ?G \<in> ?G"
    by (simp_all only: Max_in List.finite_set set_empty map_is_Nil_conv not_False_eq_True)
  with assms(2) have "0 < Max ?W" and "0 < Max ?P" and "0 < Max ?G"
    by auto
  then have "max_word_count rs \<noteq> 0" and "max_polysyllable_count rs \<noteq> 0" and "max_grade rs \<noteq> 0"
    by (simp_all add: max_word_count_def max_polysyllable_count_def max_grade_def)
  then show ?thesis
    by (simp add: normalize_rows_def)
qed

lemma heatmap_loop_positive:
  assumes "\<forall>k l. stat_of (corpus_of st) k l = stat_of data k l"
    and "map (doc_row ts data) batch = map Some rs"
    and "\<forall>(n, p, g) \<in> set (rows st @ rs). 0 < n \<and> 0 < p \<and> 0 < g"
  shows "snd (heatmap_loop ts batch st) = None"
  using assms
proof (induction batch arbitrary: st rs)
  case Nil
  then show ?case by simp
next
  case (Cons label batch)
  from Cons.prems(2) obtain r rs' where rs: "rs = r # rs'" and
    r: "doc_row ts data label = Some r" and rest: "map (doc_row ts data) batch = map Some rs'"
    by (cases rs) auto
  from heatmap_step_row [OF Cons.prems(1) r] obtain st' where
    inv: "\<forall>k l. stat_of (corpus_of st') k l = stat_of data k l" and
    rows': "rows st' = rows st @ [r]" and
    step: "heatmap_step ts label st =
      (case normalize_rows (rows st @ [r]) of
         Inl e \<Rightarrow> (st', Some e)
       | Inr normalized \<Rightarrow> (st'\<lparr>normalized_data := Some normalized\<rparr>, None))"
    by blast
  have "\<forall>(n, p, g) \<in> set (rows st @ [r]). 0 < n \<and> 0 < p \<and> 0 < g"
    using Cons.prems(3) rs by auto
  from normalize_rows_positive [OF _ this] obtain normalized where
    normalized: "normalize_rows (rows st @ [r]) = Inr normalized"
    by auto
  let ?st'' = "st'\<lparr>normalized_data := Some normalized\<rparr>"
  have loop: "heatmap_loop ts (label # batch) st = heatmap_loop ts batch ?st''"
    by (simp add: step normalized)
  have inv'': "\<forall>k l. stat_of (corpus_of ?st'') k l = stat_of data k l"
    using inv by simp
  have pos'': "\<forall>(n, p, g) \<in> set (rows ?st'' @ rs'). 0 < n \<and> 0 < p \<and> 0 < g"
    using Cons.prems(3) rs rows' by simp
  from Cons.IH [OF inv'' rest pos''] loop show ?case
    by simp
qed

text \<open>For documents with positive features, \<open>complexity_heatmap\<close> returns the labels
  of the batch and the normalised rows of all its documents.\<close>

lemma complexity_heatmap_positive:
  assumes "slice_to k (keys (snd (data_get data ''wordcount''))) = batch"
    and "map (doc_row ts data) batch = map Some rs"
    and "batch \<noteq> []"
    and "\<forall>(n, p, g) \<in> set rs. 0 < n \<and> 0 < p \<and> 0 < g"
  shows "\<exists>normalized. normalize_rows rs = Inr normalized \<and> length normalized = length batch \<and>
           snd (complexity_heatmap ts data k) = Inr (batch, normalized)"
proof -
  let ?st = "\<lparr>corpus_of = fst (data_get data ''wordcount''), rows = [], labels = [],
    normalized_data = None\<rparr>"
  let ?end = "heatmap_loop ts batch ?st"
  have inv: "\<forall>k l. stat_of (corpus_of ?st) k l = stat_of data k l"
    by (simp add: stat_of_data_get)
  have pos: "\<forall>(n, p, g) \<in> set (rows ?st @ rs). 0 < n \<and> 0 < p \<and> 0 < g"
    using assms(4) by simp
  have none: "snd ?end = None"
    by (rule heatmap_loop_positive [OF inv assms(2) pos])
  from heatmap_loop_rows [OF inv assms(2)] none assms(3) obtain normalized where
    n: "normalize_rows rs = Inr normalized" "normalized_data (fst ?end) = Some normalized"
      "labels (fst ?end) = batch"
    by auto
  have "length rs = length batch"
    using assms(2) by (metis length_map)
  moreover from assms(3) this have "rs \<noteq> []" by auto
  ultimately have len: "length normalized = length batch"
    using normalize_rows_positive [OF _ assms(4)] n(1) by auto
  have "snd (complexity_heatmap ts data k) = Inr (batch, normalized)"
    by (simp add: complexity_heatmap_def split_beta assms(1) none n(2,3))
  with n(1) len show ?thesis by blast
qed

section \<open>The example corpus\<close>

lemma example_corpus_loaded:
  "load_text example_files [] ''cat.pdf'' (Some ''Cat'') (Some (StopStr ''stop_words.txt''))
     (Some pdf_parser) = Inr example_corpus"
  by code_simp

section \<open>Invariants of a parsed document\<close>

text \<open>
  Claim C1. For every document parsed by either parser (plain text or paginated), the
  counts of the returned \<open>wordcount\<close> map add up to the returned \<open>num_words\<close>.
\<close>

theorem wordcount_sum_is_num_words:
  assumes "simple_text_parser fs filename stop_words = Inr results
           \<or> pdf_parser fs filename stop_words = Inr results"
  shows "\<exists>wc. map_of results ''wordcount'' = Some (CounterV wc) \<and>
               map_of results ''num_words'' = Some (IntV (int (sum_list (map snd wc))))"
  using assms
  by (auto simp: simple_text_parser_Inr pdf_parser_Inr sum_Counter)

theorem wordcount_sum_is_num_words_witness:
  "simple_text_parser example_files ''hello.txt'' (StopList []) =
     Inr [(''wordcount'', CounterV [(''hello'', 1), (''world'', 1)]), (''num_words'', IntV 2)] \<and>
   pdf_parser example_files ''cat.pdf'' (StopStr ''stop_words.txt'') =
     Inr [(''wordcount'', CounterV [(''cat'', 2), (''sat'', 1), (''ran'', 1)]),
          (''num_words'', IntV 4), (''num_pages'', IntV 3),
          (''raw_text'', StrV ''the cat sat\<newline>a cat ran\<newline>'')] \<and>
   (\<exists>wc. map_of [(''wordcount'', CounterV [(''hello'', 1), (''world'', 1)]), (''num_words'', IntV 2)]
            ''wordcount'' = Some (CounterV wc) \<and>
          map_of [(''wordcount'', CounterV [(''hello'', 1), (''world'', 1)]), (''num_words'', IntV 2)]
            ''num_words'' = Some (IntV (int (sum_list (map snd wc)))))"
proof -
  have simple: "simple_text_parser example_files ''hello.txt'' (StopList []) =
      Inr [(''wordcount'', CounterV [(''hello'', 1), (''world'', 1)]), (''num_words'', IntV 2)]"
    by code_simp
  have pdf: "pdf_parser example_files ''cat.pdf'' (StopStr ''stop_words.txt'') =
      Inr [(''wordcount'', CounterV [(''cat'', 2), (''sat'', 1), (''ran'', 1)]),
           (''num_words'', IntV 4), (''num_pages'', IntV 3),
           (''raw_text'', StrV ''the cat sat\<newline>a cat ran\<newline>'')]"
    by code_simp
  from wordcount_sum_is_num_words [OF disjI1, OF simple] simple pdf show ?thesis
    by blast
qed

text \<open>
  Claim C10. For every document parsed by either parser, every key of the returned
  \<open>wordcount\<close> map has a count of at least 1, and the keys are exactly the distinct
  words that survived the filter: those of the text of the file for the plain-text
  parser, and those of the text of the pages, filtered with the words of the stop-word
  file, for the paginated one.
\<close>

theorem wordcount_keys_are_counted_words:
  assumes "(text_files fs filename = Some content \<and>
            simple_text_parser fs filename stop_words = Inr results \<and>
            words = counted_words content stop_words)
         \<or> (pdf_files fs filename = Some pages \<and> stop_words = StopStr path \<and>
            load_stop_words fs path = Inr stop_list \<and>
            pdf_parser fs filename stop_words = Inr results \<and>
            words = counted_words (pages_text pages) (StopList stop_list))"
  shows "\<exists>wc. map_of results ''wordcount'' = Some (CounterV wc) \<and>
               (\<forall>(w, n) \<in> set wc. 1 \<le> n) \<and>
               set (keys wc) = set words \<and> distinct (keys wc)"
proof -
  from assms have "map_of results ''wordcount'' = Some (CounterV (Counter words))"
    by (auto simp: simple_text_parser_Inr pdf_parser_Inr)
  moreover have "\<forall>(w, n) \<in> set (Counter words). 1 \<le> n"
    using Counter_item_positive by blast
  ultimately show ?thesis
    using set_keys_Counter [of words] distinct_keys_Counter [of words] by blast
qed

theorem wordcount_keys_are_counted_words_witness:
  "text_files example_files ''hello.txt'' = Some ''Hello, World! 123'' \<and>
   simple_text_parser example_files ''hello.txt'' (StopList []) =
     Inr [(''wordcount'', CounterV [(''hello'', 1), (''world'', 1)]), (''num_words'', IntV 2)] \<and>
   counted_words ''Hello, World! 123'' (StopList []) = [''hello'', ''world''] \<and>
   (\<exists>wc. map_of [(''wordcount'', CounterV [(''hello'', 1), (''world'', 1)]), (''num_words'', IntV 2)]
            ''wordcount'' = Some (CounterV wc) \<and>
          (\<forall>(w, n) \<in> set wc. 1 \<le> n) \<and>
          set (keys wc) = set [''hello'', ''world''] \<and> distinct (keys wc))"
proof -
  have opened: "text_files example_files ''hello.txt'' = Some ''Hello, World! 123''"
    by (simp add: example_files_def)
  have parsed: "simple_text_parser example_files ''hello.txt'' (StopList []) =
      Inr [(''wordcount'', CounterV [(''hello'', 1), (''world'', 1)]), (''num_words'', IntV 2)]"
    by code_simp
  have words: "[''hello'', ''world''] = counted_words ''Hello, World! 123'' (StopList [])"
    by code_simp
  from wordcount_keys_are_counted_words [OF disjI1, OF conjI, OF opened conjI, OF parsed words]
    opened parsed words
  show ?thesis by simp
qed

section \<open>The document normalizer\<close>



section \<open>Top-k selection with a large k\<close>

text \<open>
  Claim C8. When \<open>k\<close> is at least the number of words of a document, or of
  documents of the corpus, the top-k selection of the adapters takes all of them and
  does not fail:
  \<^item> \<open>most_common(k)\<close> returns every item of the counter once;
  \<^item> \<open>wordcount_sankey\<close> chooses, for every document of a corpus of counters, all
    the words of the document;
  \<^item> the slice \<open>[:k]\<close> of \<open>complexity_heatmap\<close> is the whole list of labels, and the
    adapter does what it does with \<open>k\<close> the number of documents;
  \<^item> for a corpus of documents with a counter as \<open>wordcount\<close> and an \<open>int\<close> as
    \<open>num_words\<close>, \<open>complexity_heatmap\<close> returns the labels of all the documents with
    the normalised rows of all of them, unless a maximum is zero
    (\<open>ZeroDivisionError\<close>) or the corpus has no document (\<open>UnboundLocalError\<close>),
    which do not depend on \<open>k\<close>; and it does return them, one row for each
    document, when there is a document and the features of all are positive.
\<close>

theorem top_k_takes_all_available:
  "(int (length wordcount) \<le> k \<longrightarrow>
      mset (most_common k wordcount) = mset wordcount \<and>
      mset (map fst (most_common k wordcount)) = mset (keys wordcount)) \<and>
   ((\<forall>(label, v) \<in> set (snd (data_get data ''wordcount'')).
        \<exists>c. v = CounterV c \<and> int (length c) \<le> k) \<longrightarrow>
      (\<exists>tw. snd (sankey_top_words data None k) = Inr tw \<and>
            map fst tw = keys (snd (data_get data ''wordcount'')) \<and>
            (\<forall>label c. map_of (snd (data_get data ''wordcount'')) label = Some (CounterV c) \<longrightarrow>
               (\<exists>words. map_of tw label = Some words \<and> mset words = mset (keys c))))) \<and>
   (int (length (keys (snd (data_get data ''wordcount'')))) \<le> k \<longrightarrow>
      slice_to k (keys (snd (data_get data ''wordcount''))) = keys (snd (data_get data ''wordcount'')) \<and>
      complexity_heatmap ts data k =
        complexity_heatmap ts data (int (length (keys (snd (data_get data ''wordcount''))))) \<and>
      (map (doc_row ts data) (keys (snd (data_get data ''wordcount''))) = map Some rs \<longrightarrow>
         (snd (complexity_heatmap ts data k) = Inl ZeroDivisionError \<or>
          (keys (snd (data_get data ''wordcount'')) = [] \<and>
           snd (complexity_heatmap ts data k) = Inl UnboundLocalError) \<or>
          (keys (snd (data_get data ''wordcount'')) \<noteq> [] \<and>
           (\<exists>normalized. normalize_rows rs = Inr normalized \<and>
              snd (complexity_heatmap ts data k) =
                Inr (keys (snd (data_get data ''wordcount'')), normalized)))) \<and>
         (keys (snd (data_get data ''wordcount'')) \<noteq> [] \<and>
          (\<forall>(n, p, g) \<in> set rs. 0 < n \<and> 0 < p \<and> 0 < g) \<longrightarrow>
            (\<exists>normalized. normalize_rows rs = Inr normalized \<and>
               length normalized = length (keys (snd (data_get data ''wordcount''))) \<and>
               snd (complexity_heatmap ts data k) =
                 Inr (keys (snd (data_get data ''wordcount'')), normalized)))))"
proof (intro conjI impI)
  assume "int (length wordcount) \<le> k"
  then show all: "mset (most_common k wordcount) = mset wordcount"
    by (rule mset_most_common_all)
  have "mset (map fst (most_common k wordcount)) = image_mset fst (mset (most_common k wordcount))"
    by simp
  also have "\<dots> = mset (keys wordcount)"
    by (simp only: all keys_def mset_map)
  finally show "mset (map fst (most_common k wordcount)) = mset (keys wordcount)" .
next
  let ?wcs = "snd (data_get data ''wordcount'')"
  assume small: "\<forall>(label, v) \<in> set ?wcs. \<exists>c. v = CounterV c \<and> int (length c) \<le> k"
  have counters: "\<forall>label \<in> set (keys ?wcs). \<exists>c. map_of ?wcs label = Some (CounterV c)"
  proof
    fix label
    assume "label \<in> set (keys ?wcs)"
    then obtain v where v: "map_of ?wcs label = Some v"
      by (auto simp: keys_def dest: weak_map_of_SomeI)
    then have "(label, v) \<in> set ?wcs" by (rule map_of_SomeD)
    with small v show "\<exists>c. map_of ?wcs label = Some (CounterV c)" by auto
  qed
  from top_words_loop_counters [OF counters, of k] obtain tw where
    tw: "top_words_loop ?wcs k (keys ?wcs) = Inr tw" "map fst tw = keys ?wcs"
      "\<forall>label \<in> set (keys ?wcs). \<forall>c. map_of ?wcs label = Some (CounterV c) \<longrightarrow>
         map_of tw label = Some (map fst (most_common k c))"
    by blast
  have run: "snd (sankey_top_words data None k) = Inr tw"
    by (simp add: sankey_top_words_def split_beta Let_def tw(1))
  have words: "\<exists>words. map_of tw label = Some words \<and> mset words = mset (keys c)"
    if c: "map_of ?wcs label = Some (CounterV c)" for label c
  proof -
    from c have mem: "(label, CounterV c) \<in> set ?wcs" by (rule map_of_SomeD)
    then have "label \<in> set (keys ?wcs)" by (force simp: keys_def)
    with tw(3) c have "map_of tw label = Some (map fst (most_common k c))" by blast
    moreover from small mem have "int (length c) \<le> k" by auto
    then have "mset (map fst (most_common k c)) = mset (keys c)"
      by (simp add: most_common_all keys_def)
    ultimately show ?thesis by blast
  qed
  from run tw(2) words
  show "\<exists>tw. snd (sankey_top_words data None k) = Inr tw \<and> map fst tw = keys ?wcs \<and>
      (\<forall>label c. map_of ?wcs label = Some (CounterV c) \<longrightarrow>
         (\<exists>words. map_of tw label = Some words \<and> mset words = mset (keys c)))"
    by blast
next
  let ?files = "keys (snd (data_get data ''wordcount''))"
  assume large: "int (length ?files) \<le> k"
  then show whole: "slice_to k ?files = ?files"
    by (rule slice_to_all)
  have exact: "slice_to (int (length ?files)) ?files = ?files"
    by (simp add: slice_to_all)
  show "complexity_heatmap ts data k = complexity_heatmap ts data (int (length ?files))"
    unfolding complexity_heatmap_def split_beta whole exact by (rule refl)
next
  let ?files = "keys (snd (data_get data ''wordcount''))"
  assume "int (length ?files) \<le> k"
  then have whole: "slice_to k ?files = ?files"
    by (rule slice_to_all)
  assume rows: "map (doc_row ts data) ?files = map Some rs"
  show "snd (complexity_heatmap ts data k) = Inl ZeroDivisionError \<or>
      (?files = [] \<and> snd (complexity_heatmap ts data k) = Inl UnboundLocalError) \<or>
      (?files \<noteq> [] \<and>
       (\<exists>normalized. normalize_rows rs = Inr normalized \<and>
          snd (complexity_heatmap ts data k) = Inr (?files, normalized)))"
    by (rule complexity_heatmap_rows [OF whole rows])
next
  let ?files = "keys (snd (data_get data ''wordcount''))"
  assume "int (length ?files) \<le> k"
  then have whole: "slice_to k ?files = ?files"
    by (rule slice_to_all)
  assume rows: "map (doc_row ts data) ?files = map Some rs"
    and positive: "?files \<noteq> [] \<and> (\<forall>(n, p, g) \<in> set rs. 0 < n \<and> 0 < p \<and> 0 < g)"
  show "\<exists>normalized. normalize_rows rs = Inr normalized \<and>
      length normalized = length ?files \<and>
      snd (complexity_heatmap ts data k) = Inr (?files, normalized)"
    by (rule complexity_heatmap_positive
        [OF whole rows positive [THEN conjunct1] positive [THEN conjunct2]])
qed

theorem top_k_takes_all_available_witness:
  "int (length [(''cat'', 2::nat), (''sat'', 1), (''ran'', 1)]) \<le> 5 \<and>
   mset (most_common 5 [(''cat'', 2), (''sat'', 1), (''ran'', 1)]) =
     mset [(''cat'', 2), (''sat'', 1), (''ran'', 1)] \<and>
   load_text example_files [] ''long.txt'' (Some ''Long'') (Some (StopList []))
     (Some simple_text_parser) =
     Inr [(''wordcount'', [(''Long'', CounterV [(''screenplay'', 1), (''complexity'', 1)])]),
          (''num_words'', [(''Long'', IntV 2)])] \<and>
   load_text example_files
     [(''wordcount'', [(''Long'', CounterV [(''screenplay'', 1), (''complexity'', 1)])]),
      (''num_words'', [(''Long'', IntV 2)])]
     ''features.txt'' (Some ''Features'') (Some (StopList [])) (Some simple_text_parser) =
     Inr two_documents \<and>
   keys (snd (data_get two_documents ''wordcount'')) = [''Long'', ''Features''] \<and>
   (\<exists>tw. snd (sankey_top_words two_documents None 5) = Inr tw \<and>
         map fst tw = keys (snd (data_get two_documents ''wordcount'')) \<and>
         (\<forall>label c. map_of (snd (data_get two_documents ''wordcount'')) label = Some (CounterV c) \<longrightarrow>
            (\<exists>words. map_of tw label = Some words \<and> mset words = mset (keys c)))) \<and>
   slice_to 5 (keys (snd (data_get two_documents ''wordcount''))) =
     keys (snd (data_get two_documents ''wordcount'')) \<and>
   complexity_heatmap example_textstat two_documents 5 =
     complexity_heatmap example_textstat two_documents
       (int (length (keys (snd (data_get two_documents ''wordcount''))))) \<and>
   map (doc_row example_textstat two_documents) (keys (snd (data_get two_documents ''wordcount''))) =
     map Some [(2, 2, 21), (3, 2, 24)] \<and>
   snd (complexity_heatmap example_textstat two_documents 5) =
     Inr ([''Long'', ''Features''], [(2 / 3, 1, 7 / 8), (1, 1, 1)])"
proof -
  note all = top_k_takes_all_available
    [where wordcount = "[(''cat'', 2), (''sat'', 1), (''ran'', 1)]" and k = 5
       and data = two_documents and ts = example_textstat and rs = "[(2, 2, 21), (3, 2, 24)]"]
  have few: "int (length [(''cat'', 2::nat), (''sat'', 1), (''ran'', 1)]) \<le> 5"
    by simp
  have first: "load_text example_files [] ''long.txt'' (Some ''Long'') (Some (StopList []))
      (Some simple_text_parser) =
      Inr [(''wordcount'', [(''Long'', CounterV [(''screenplay'', 1), (''complexity'', 1)])]),
           (''num_words'', [(''Long'', IntV 2)])]"
    by code_simp
  have second: "load_text example_files
      [(''wordcount'', [(''Long'', CounterV [(''screenplay'', 1), (''complexity'', 1)])]),
       (''num_words'', [(''Long'', IntV 2)])]
      ''features.txt'' (Some ''Features'') (Some (StopList [])) (Some simple_text_parser) =
      Inr two_documents"
    by code_simp
  have wordcounts: "snd (data_get two_documents ''wordcount'') =
      [(''Long'', CounterV [(''screenplay'', 1), (''complexity'', 1)]),
       (''Features'', CounterV [(''normalized'', 1), (''features'', 1), (''text'', 1)])]"
    by (simp add: data_get_def two_documents_def)
  have files: "keys (snd (data_get two_documents ''wordcount'')) = [''Long'', ''Features'']"
    by (simp add: wordcounts keys_def)
  have counters: "\<forall>(label, v) \<in> set (snd (data_get two_documents ''wordcount'')).
      \<exists>c. v = CounterV c \<and> int (length c) \<le> 5"
    by (simp add: wordcounts)
  have documents: "int (length (keys (snd (data_get two_documents ''wordcount'')))) \<le> 5"
    by (simp add: files)
  have rows: "map (doc_row example_textstat two_documents)
      (keys (snd (data_get two_documents ''wordcount''))) = map Some [(2, 2, 21), (3, 2, 24)]"
    unfolding files
    by (simp add: doc_row_def stat_of_def two_documents_def example_textstat_def keys_def
        split_def is_space_def)
  have positive: "keys (snd (data_get two_documents ''wordcount'')) \<noteq> [] \<and>
      (\<forall>(n, p, g) \<in> set [(2::int, 2::int, 21::real), (3, 2, 24)]. 0 < n \<and> 0 < p \<and> 0 < g)"
    by (simp add: files)
  note most = all [THEN conjunct1, THEN mp, OF few, THEN conjunct1]
  note sankey = all [THEN conjunct2, THEN conjunct1, THEN mp, OF counters]
  note heatmap = all [THEN conjunct2, THEN conjunct2, THEN mp, OF documents]
  note slice = heatmap [THEN conjunct1]
  note same = heatmap [THEN conjunct2, THEN conjunct1]
  note gathered = heatmap [THEN conjunct2, THEN conjunct2, THEN mp, OF rows,
    THEN conjunct2, THEN mp, OF positive]
  have normalized: "normalize_rows [(2, 2, 21), (3, 2, 24)] = Inr [(2 / 3, 1, 7 / 8), (1, 1, 1)]"
    by (simp add: normalize_rows_def max_word_count_def max_polysyllable_count_def max_grade_def)
  from gathered normalized files
  have result: "snd (complexity_heatmap example_textstat two_documents 5) =
      Inr ([''Long'', ''Features''], [(2 / 3, 1, 7 / 8), (1, 1, 1)])"
    by auto
  show ?thesis
    by (intro conjI) (fact few most first second files sankey slice same rows result)+
qed

section \<open>Registering documents\<close>

text \<open>
  Claim C6. Registering a document under a label, used before or not, stores under
  that label every statistic that the parse produced, and leaves the entries of every
  other label as they were, under every statistic. (\<open>results\<close> is a dictionary, so
  its keys are distinct.)
\<close>

theorem load_text_overwrites_label:
  assumes "default_stop_words fs stop_words = Inr sw"
    and "parser fs filename sw = Inr results"
    and "distinct (keys results)"
    and "lbl = (case label of None \<Rightarrow> filename | Some l \<Rightarrow> l)"
  shows "\<exists>data'. load_text fs data filename label stop_words (Some parser) = Inr data' \<and>
           (\<forall>(k, v) \<in> set results. stat_of data' k lbl = Some v) \<and>
           (\<forall>k l. l \<noteq> lbl \<longrightarrow> stat_of data' k l = stat_of data k l)"
proof -
  let ?data' = "store_results lbl results data"
  have "load_text fs data filename label stop_words (Some parser) = Inr ?data'"
    using assms(1,2,4) by (simp add: load_text_with_parser)
  moreover have "\<forall>(k, v) \<in> set results. stat_of ?data' k lbl = Some v"
    using assms(3) by (auto simp: stat_of_store_results_label)
  moreover have "\<forall>k l. l \<noteq> lbl \<longrightarrow> stat_of ?data' k l = stat_of data k l"
    by (simp add: stat_of_store_results_other)
  ultimately show ?thesis by blast
qed

theorem load_text_overwrites_label_witness:
  "default_stop_words example_files (Some (StopList [])) = Inr (StopList []) \<and>
   simple_text_parser example_files ''hello.txt'' (StopList []) =
     Inr [(''wordcount'', CounterV [(''hello'', 1), (''world'', 1)]), (''num_words'', IntV 2)] \<and>
   distinct (keys [(''wordcount'', CounterV [(''hello'', 1), (''world'', 1)]), (''num_words'', IntV 2)]) \<and>
   stat_of example_corpus ''num_words'' ''Cat'' = Some (IntV 4) \<and>
   (\<exists>data'. load_text example_files example_corpus ''hello.txt'' (Some ''Cat'') (Some (StopList []))
              (Some simple_text_parser) = Inr data' \<and>
            (\<forall>(k, v) \<in> set [(''wordcount'', CounterV [(''hello'', 1), (''world'', 1)]),
                              (''num_words'', IntV 2)].
               stat_of data' k ''Cat'' = Some v) \<and>
            (\<forall>k l. l \<noteq> ''Cat'' \<longrightarrow> stat_of data' k l = stat_of example_corpus k l))"
proof -
  have stop: "default_stop_words example_files (Some (StopList [])) = Inr (StopList [])"
    by (simp add: default_stop_words_def)
  have parsed: "simple_text_parser example_files ''hello.txt'' (StopList []) =
      Inr [(''wordcount'', CounterV [(''hello'', 1), (''world'', 1)]), (''num_words'', IntV 2)]"
    by code_simp
  have dict: "distinct (keys [(''wordcount'', CounterV [(''hello'', 1), (''world'', 1)]),
      (''num_words'', IntV 2)])"
    by (simp add: keys_def)
  have before: "stat_of example_corpus ''num_words'' ''Cat'' = Some (IntV 4)"
    by (simp add: stat_of_def example_corpus_def)
  have label: "''Cat'' = (case Some ''Cat'' of None \<Rightarrow> ''hello.txt'' | Some l \<Rightarrow> l)"
    by simp
  note after = load_text_overwrites_label
    [where parser = simple_text_parser and fs = example_files and data = example_corpus,
     OF stop parsed dict label]
  show ?thesis
    by (intro conjI) (fact stop parsed dict before after)+
qed

text \<open>
  Claim C4 says that \<open>load_text\<close> without a parser runs the plain-text parser on the
  file with the stop words and stores its result. The call that \<open>load_text\<close> makes
  leaves the stop words out, \<open>self.simple_text_parser(filename)\<close>, and so raises
  \<open>TypeError\<close>: here for a file that the parser reads when it is called with both
  arguments, with the stop words given and with the default ones, and nothing is stored.
\<close>

theorem load_text_default_parser_fails:
  "simple_text_parser example_files ''hello.txt'' (StopList []) =
     Inr [(''wordcount'', CounterV [(''hello'', 1), (''world'', 1)]), (''num_words'', IntV 2)] \<and>
   load_text example_files [] ''hello.txt'' None (Some (StopList [])) None = Inl TypeError \<and>
   load_text example_files [] ''hello.txt'' None None None = Inl TypeError"
proof -
  have "simple_text_parser example_files ''hello.txt'' (StopList []) =
      Inr [(''wordcount'', CounterV [(''hello'', 1), (''world'', 1)]), (''num_words'', IntV 2)]"
    by code_simp
  moreover have "load_text example_files [] ''hello.txt'' None (Some (StopList [])) None = Inl TypeError"
    by (simp add: load_text_def default_stop_words_def)
  moreover have "load_text example_files [] ''hello.txt'' None None None = Inl TypeError"
    by code_simp
  ultimately show ?thesis by (intro conjI)
qed

section \<open>\<open>get_features\<close>\<close>

text \<open>
  Claim C5 says that \<open>get_features\<close> fails with an unknown-document signal for a label
  that is not registered. It does not fail: \<open>Dog\<close> is not a label of the example
  corpus, and \<open>get_features\<close> returns a record for it, with \<open>None\<close> as its word count.
\<close>

theorem get_features_unknown_label_counterexample:
  "stat_of example_corpus ''wordcount'' ''Dog'' = None \<and>
   snd (get_features example_textstat example_corpus ''Dog'') =
     Inr \<lparr>Word_Count = None, Grade_Level = 3, Polysyllable_Count = 0\<rparr>"
  by (simp add: get_features_def data_get_def stat_of_def example_corpus_def example_textstat_def
      split_def is_space_def)

text \<open>
  Claim C5, amended. For every label that is not registered in the corpus,
  \<open>get_features\<close> does not fail: it returns a record whose word count is \<open>None\<close>,
  with a grade level and a polysyllable count, and leaves every entry of the corpus as
  it was.
\<close>

theorem get_features_unknown_label:
  assumes "stat_of data ''wordcount'' label = None"
  shows "\<exists>f. snd (get_features ts data label) = Inr f \<and> Word_Count f = None \<and>
           (\<forall>k l. stat_of (fst (get_features ts data label)) k l = stat_of data k l)"
proof -
  have "map_of (snd (data_get data ''wordcount'')) label = None"
    using assms by (simp add: map_of_data_get)
  then show ?thesis
    by (simp add: get_features_def split_beta Let_def stat_of_data_get)
qed

theorem get_features_unknown_label_witness:
  "stat_of example_corpus ''wordcount'' ''Dog'' = None \<and>
   (\<exists>f. snd (get_features example_textstat example_corpus ''Dog'') = Inr f \<and> Word_Count f = None \<and>
        (\<forall>k l. stat_of (fst (get_features example_textstat example_corpus ''Dog'')) k l =
                stat_of example_corpus k l))"
proof -
  have unknown: "stat_of example_corpus ''wordcount'' ''Dog'' = None"
    by (simp add: stat_of_def example_corpus_def)
  from get_features_unknown_label [OF unknown, of example_textstat] unknown
  show ?thesis by (intro conjI)
qed

text \<open>
  Claim C9 says that \<open>get_features(label)\<close> gives to the two readability functions
  the words of the document, joined, or its stored raw text, and no other string. It
  gives them its argument, the label: for the label \<open>Cat\<close> of the example corpus the
  grade and the count returned are those of the string \<open>Cat\<close> (3 and 0 with the
  stand-in functions), not those of the joined words \<open>cat sat ran\<close> (11) that
  \<open>complexity_heatmap\<close> scores, nor those of the raw text (22).
\<close>

theorem get_features_scores_the_label:
  "snd (get_features example_textstat example_corpus ''Cat'') =
     Inr \<lparr>Word_Count = Some (CounterV [(''cat'', 2), (''sat'', 1), (''ran'', 1)]),
          Grade_Level = flesch_kincaid_grade example_textstat ''Cat'',
          Polysyllable_Count = polysyllabcount example_textstat ''Cat''\<rparr> \<and>
   flesch_kincaid_grade example_textstat ''Cat'' = 3 \<and>
   flesch_kincaid_grade example_textstat
     (join '' '' (keys [(''cat'', 2::nat), (''sat'', 1), (''ran'', 1)])) = 11 \<and>
   flesch_kincaid_grade example_textstat ''the cat sat\<newline>a cat ran\<newline>'' = 22"
  by (simp add: get_features_def data_get_def example_corpus_def example_textstat_def keys_def)

section \<open>Normalisation in \<open>complexity_heatmap\<close>\<close>

text \<open>
  Claim C2 says that a zero maximum of a feature is guarded, with zeros as the
  normalised values of that feature and no arithmetic fault for the caller. There is no
  guard: the one document of the example corpus has no polysyllable, the maximum of the
  polysyllable counts of the batch is zero, and \<open>complexity_heatmap\<close> raises
  \<open>ZeroDivisionError\<close>.
\<close>

theorem zero_maximum_counterexample:
  "slice_to 10 (keys (snd (data_get example_corpus ''wordcount''))) = [''Cat''] \<and>
   doc_row example_textstat example_corpus ''Cat'' = Some (4, 0, 11) \<and>
   max_polysyllable_count [(4, 0, 11)] = 0 \<and>
   snd (complexity_heatmap example_textstat example_corpus 10) = Inl ZeroDivisionError"
proof -
  have batch: "slice_to 10 (keys (snd (data_get example_corpus ''wordcount''))) = [''Cat'']"
    by (simp add: slice_to_def keys_def data_get_def example_corpus_def)
  have row: "doc_row example_textstat example_corpus ''Cat'' = Some (4, 0, 11)"
    by (simp add: doc_row_def stat_of_def example_corpus_def example_textstat_def keys_def
        split_def is_space_def)
  have zero: "max_polysyllable_count [(4, 0, 11)] = 0"
    by (simp add: max_polysyllable_count_def)
  have fault: "snd (complexity_heatmap example_textstat example_corpus 10) = Inl ZeroDivisionError"
    by (simp add: complexity_heatmap_def data_get_def example_corpus_def slice_to_def keys_def
        heatmap_step_def example_textstat_def split_def is_space_def normalize_rows_def
        max_word_count_def max_polysyllable_count_def max_grade_def)
  show ?thesis
    by (intro conjI) (fact batch row zero fault)+
qed

text \<open>
  Claim C2, amended. For every batch of at least one document (each with a counter as
  its \<open>wordcount\<close> and an \<open>int\<close> as its \<open>num_words\<close>), if the maximum of some
  feature across the batch is zero, the normalisation is not guarded:
  \<open>complexity_heatmap\<close> raises \<open>ZeroDivisionError\<close>, which reaches the caller, and
  returns no normalised value.
\<close>

theorem zero_maximum_raises:
  assumes "slice_to k (keys (snd (data_get data ''wordcount''))) = batch"
    and "batch \<noteq> []"
    and "map (doc_row ts data) batch = map Some rs"
    and "max_word_count rs = 0 \<or> max_polysyllable_count rs = 0 \<or> max_grade rs = 0"
  shows "snd (complexity_heatmap ts data k) = Inl ZeroDivisionError"
proof -
  from assms(4) have "normalize_rows rs = Inl ZeroDivisionError"
    by (simp add: normalize_rows_def)
  with complexity_heatmap_rows [OF assms(1,3)] assms(2) show ?thesis
    by auto
qed

theorem zero_maximum_raises_witness:
  "slice_to 10 (keys (snd (data_get example_corpus ''wordcount''))) = [''Cat''] \<and>
   [''Cat''] \<noteq> [] \<and>
   map (doc_row example_textstat example_corpus) [''Cat''] = map Some [(4, 0, 11)] \<and>
   max_polysyllable_count [(4, 0, 11)] = 0 \<and>
   snd (complexity_heatmap example_textstat example_corpus 10) = Inl ZeroDivisionError"
proof -
  have batch: "slice_to 10 (keys (snd (data_get example_corpus ''wordcount''))) = [''Cat'']"
    by (simp add: slice_to_def keys_def data_get_def example_corpus_def)
  have some: "[''Cat''] \<noteq> []"
    by simp
  have rows: "map (doc_row example_textstat example_corpus) [''Cat''] = map Some [(4, 0, 11)]"
    by (simp add: doc_row_def stat_of_def example_corpus_def example_textstat_def keys_def
        split_def is_space_def)
  have zero: "max_polysyllable_count [(4, 0, 11)] = 0"
    by (simp add: max_polysyllable_count_def)
  have maxima: "max_word_count [(4, 0, 11)] = 0 \<or> max_polysyllable_count [(4, 0, 11)] = 0 \<or>
      max_grade [(4, 0, 11)] = 0"
    using zero by simp
  note fault = zero_maximum_raises [OF batch some rows maxima]
  show ?thesis
    by (intro conjI) (fact batch some rows zero fault)+
qed

text \<open>
  Claim C3 says that a batch of one registered document is normalised to 1.0 in every
  feature. An empty document is registered with \<open>num_words = 0\<close>, and the batch of
  that one document raises \<open>ZeroDivisionError\<close>.
\<close>

theorem single_document_counterexample:
  "load_text example_files [] ''empty.txt'' None (Some (StopList [])) (Some simple_text_parser) =
     Inr [(''wordcount'', [(''empty.txt'', CounterV [])]), (''num_words'', [(''empty.txt'', IntV 0)])] \<and>
   slice_to 10 (keys (snd (data_get
     [(''wordcount'', [(''empty.txt'', CounterV [])]), (''num_words'', [(''empty.txt'', IntV 0)])]
     ''wordcount''))) = [''empty.txt''] \<and>
   snd (complexity_heatmap example_textstat
     [(''wordcount'', [(''empty.txt'', CounterV [])]), (''num_words'', [(''empty.txt'', IntV 0)])] 10) =
     Inl ZeroDivisionError"
proof -
  have loaded: "load_text example_files [] ''empty.txt'' None (Some (StopList []))
      (Some simple_text_parser) =
      Inr [(''wordcount'', [(''empty.txt'', CounterV [])]), (''num_words'', [(''empty.txt'', IntV 0)])]"
    by code_simp
  have batch: "slice_to 10 (keys (snd (data_get
      [(''wordcount'', [(''empty.txt'', CounterV [])]), (''num_words'', [(''empty.txt'', IntV 0)])]
      ''wordcount''))) = [''empty.txt'']"
    by (simp add: slice_to_def keys_def data_get_def)
  have fault: "snd (complexity_heatmap example_textstat
      [(''wordcount'', [(''empty.txt'', CounterV [])]), (''num_words'', [(''empty.txt'', IntV 0)])] 10) =
      Inl ZeroDivisionError"
    by (simp add: complexity_heatmap_def data_get_def slice_to_def keys_def
        heatmap_step_def example_textstat_def split_def normalize_rows_def
        max_word_count_def max_polysyllable_count_def max_grade_def)
  show ?thesis
    by (intro conjI) (fact loaded batch fault)+
qed

text \<open>
  Claim C3, amended. For every batch of exactly one registered document (with a counter
  as its \<open>wordcount\<close> and an \<open>int\<close> as its \<open>num_words\<close>) whose word count,
  polysyllable count and grade level are all different from zero, the normalisation
  of \<open>complexity_heatmap\<close> yields 1.0 for every feature of the document.
\<close>

theorem single_document_normalizes_to_one:
  assumes "slice_to k (keys (snd (data_get data ''wordcount''))) = [label]"
    and "doc_row ts data label = Some (num_words, polysyllable_count, grade)"
    and "num_words \<noteq> 0" and "polysyllable_count \<noteq> 0" and "grade \<noteq> 0"
  shows "snd (complexity_heatmap ts data k) = Inr ([label], [(1, 1, 1)])"
proof -
  let ?st = "\<lparr>corpus_of = fst (data_get data ''wordcount''), rows = [], labels = [],
    normalized_data = None\<rparr>"
  have inv: "\<forall>k l. stat_of (corpus_of ?st) k l = stat_of data k l"
    by (simp add: stat_of_data_get)
  have one: "normalize_rows [(num_words, polysyllable_count, grade)] = Inr [(1, 1, 1)]"
    using assms(3-5)
    by (simp add: normalize_rows_def max_word_count_def max_polysyllable_count_def max_grade_def)
  from heatmap_step_row [OF inv assms(2)] obtain st' where
    labels': "labels st' = [label]" and
    step: "heatmap_step ts label ?st =
      (case normalize_rows [(num_words, polysyllable_count, grade)] of
         Inl e \<Rightarrow> (st', Some e)
       | Inr normalized \<Rightarrow> (st'\<lparr>normalized_data := Some normalized\<rparr>, None))"
    by auto
  have "heatmap_loop ts [label] ?st = (st'\<lparr>normalized_data := Some [(1, 1, 1)]\<rparr>, None)"
    by (simp add: step one)
  then show ?thesis
    by (simp add: complexity_heatmap_def split_beta assms(1) labels')
qed

theorem single_document_normalizes_to_one_witness:
  "load_text example_files [] ''long.txt'' (Some ''Long'') (Some (StopList []))
     (Some simple_text_parser) =
     Inr [(''wordcount'', [(''Long'', CounterV [(''screenplay'', 1), (''complexity'', 1)])]),
          (''num_words'', [(''Long'', IntV 2)])] \<and>
   slice_to 10 (keys (snd (data_get
     [(''wordcount'', [(''Long'', CounterV [(''screenplay'', 1), (''complexity'', 1)])]),
      (''num_words'', [(''Long'', IntV 2)])] ''wordcount''))) = [''Long''] \<and>
   doc_row example_textstat
     [(''wordcount'', [(''Long'', CounterV [(''screenplay'', 1), (''complexity'', 1)])]),
      (''num_words'', [(''Long'', IntV 2)])] ''Long'' = Some (2, 2, 21) \<and>
   snd (complexity_heatmap example_textstat
     [(''wordcount'', [(''Long'', CounterV [(''screenplay'', 1), (''complexity'', 1)])]),
      (''num_words'', [(''Long'', IntV 2)])] 10) = Inr ([''Long''], [(1, 1, 1)])"
proof -
  let ?corpus = "[(''wordcount'', [(''Long'', CounterV [(''screenplay'', 1), (''complexity'', 1)])]),
    (''num_words'', [(''Long'', IntV 2)])]"
  have loaded: "load_text example_files [] ''long.txt'' (Some ''Long'') (Some (StopList []))
      (Some simple_text_parser) = Inr ?corpus"
    by code_simp
  have batch: "slice_to 10 (keys (snd (data_get ?corpus ''wordcount''))) = [''Long'']"
    by (simp add: slice_to_def keys_def data_get_def)
  have row: "doc_row example_textstat ?corpus ''Long'' = Some (2, 2, 21)"
    by (simp add: doc_row_def stat_of_def example_textstat_def keys_def split_def is_space_def)
  have nonzero: "(2::int) \<noteq> 0" "(21::real) \<noteq> 0"
    by simp_all
  note one = single_document_normalizes_to_one [OF batch row nonzero(1) nonzero(1) nonzero(2)]
  show ?thesis
    by (intro conjI) (fact loaded batch row one)+
qed

end
